theory Spec2Isabelle
  imports Main
begin

section \<open>Python values and exceptions\<close>

text \<open>The exceptions the modelled code can raise.\<close>

datatype exn =
    FileNotFoundError
  | KeyError string
  | JSONDecodeError
  | AttributeError
  | TypeError
  | UnboundLocalError
  | RuntimeError

text \<open>
  A JSON document as Python holds it after \<open>json.load\<close>: \<open>JNull\<close> is Python's
  \<open>None\<close>, \<open>JObj\<close> a dict in insertion order.
\<close>

datatype json =
    JNull
  | JBool bool
  | JNum int
  | JStr string
  | JArr "json list"
  | JObj "(string \<times> json) list"

section \<open>The credentials file: \<open>read_credentials\<close>\<close>

text \<open>
  \<open>str.isspace\<close> on the code points below 256, which is what \<open>str.strip()\<close> removes
  from both ends.
\<close>

definition is_space :: "char \<Rightarrow> bool" where
  "is_space c = (of_char c \<in> {9, 10, 11, 12, 13, 28, 29, 30, 31, 32, 133, 160 :: nat})"

definition strip :: "string \<Rightarrow> string" where
  "strip s = rev (dropWhile is_space (rev (dropWhile is_space s)))"

text \<open>\<open>s.split(sep)\<close> for a one-character separator: never the empty list.\<close>

fun str_split :: "char \<Rightarrow> string \<Rightarrow> string list" where
  "str_split sep [] = [[]]"
| "str_split sep (c # cs) =
     (if c = sep then [] # str_split sep cs
      else (case str_split sep cs of [] \<Rightarrow> [[c]] | piece # pieces \<Rightarrow> (c # piece) # pieces))"

text \<open>
  \<open>for line in f\<close>: the lines of a text file, each with its terminating newline; a last
  line without newline is yielded as it is. The content of a file is its text as \<open>open\<close>
  in text mode delivers it, every line end already a single newline character.
\<close>

fun readlines :: "string \<Rightarrow> string list" where
  "readlines [] = []"
| "readlines (c # cs) =
     (if c = CHR 0x0A then [c] # readlines cs
      else (case readlines cs of [] \<Rightarrow> [[c]] | l # ls \<Rightarrow> (c # l) # ls))"

text \<open>
  The body of the loop of \<open>read_credentials\<close>:
  \<^verbatim>\<open>
    tmp = line.split('=')
    if len(tmp) > 1:
        key, val = [x.strip() for x in tmp][:2]
        credentials[key] = val
  \<close>
\<close>

definition add_credential :: "(string \<rightharpoonup> string) \<Rightarrow> string \<Rightarrow> (string \<rightharpoonup> string)" where
  "add_credential credentials line =
     (let tmp = str_split (CHR ''='') line in
      if length tmp > 1
      then (let kv = take 2 (map strip tmp) in credentials(kv ! 0 \<mapsto> kv ! 1))
      else credentials)"

definition parse_credentials :: "string \<Rightarrow> (string \<rightharpoonup> string)" where
  "parse_credentials content = foldl add_credential Map.empty (readlines content)"

text \<open>
  \<open>read_credentials\<close> opens \<open>$HOME/.trakt/credentials\<close>; the file is \<open>None\<close> when it
  does not exist, and \<open>open\<close> raises.
\<close>

definition read_credentials :: "string option \<Rightarrow> exn + (string \<rightharpoonup> string)" where
  "read_credentials credentials_file =
     (case credentials_file of
        None \<Rightarrow> Inl FileNotFoundError
      | Some content \<Rightarrow> Inr (parse_credentials content))"

subsection \<open>The mapping as the specification words it\<close>

definition has_equals :: "string \<Rightarrow> bool" where
  "has_equals line = (CHR ''='' \<in> set line)"

definition key_text :: "string \<Rightarrow> string" where
  "key_text line = strip (takeWhile (\<lambda>c. c \<noteq> CHR ''='') line)"

definition value_text :: "string \<Rightarrow> string" where
  "value_text line =
     strip (takeWhile (\<lambda>c. c \<noteq> CHR ''='') (drop 1 (dropWhile (\<lambda>c. c \<noteq> CHR ''='') line)))"

definition credentials_spec :: "string list \<Rightarrow> (string \<rightharpoonup> string)" where
  "credentials_spec lines key =
     (case filter (\<lambda>l. has_equals l \<and> key_text l = key) lines of
        [] \<Rightarrow> None
      | l # ls \<Rightarrow> Some (value_text (last (l # ls))))"

section \<open>The state of a \<open>TraktInstance\<close> and of the world around it\<close>

text \<open>
  A media object of the client library: \<open>get_key('imdb')\<close> and \<open>to_dict()\<close>. The value
  bound to \<open>show_obj\<close> is \<open>None\<close>, one media object, a list of them (what a lookup
  yields) or a dict (what \<open>do_query\<close> builds).
\<close>

datatype media = Media (get_key_imdb: "string option") (to_dict: json)

datatype pyobj =
    PNone
  | PMedia media
  | PList "media list"
  | PDict "(string option \<times> json) list"

datatype message =
    Already_started
  | Enter_code json json
  | Authentication_aborted
  | Authentication_successful json
  | Authentication_expired
  | Token_refreshed json

text \<open>What the code does to the outside: lines printed and calls of the client library.\<close>

datatype action =
    Print message
  | Print_obj pyobj
  | Oauth_device_code
  | Poller_start json
  | Poll_callback bool
  | Search_lookup string
  | Search_query string string
  | Shows_episode "string option" int int
  | Shows_season "string option" int
  | Watchlist_add json
  | History_add json

text \<open>
  \<open>threading.Condition()\<close> is built over a re-entrant lock. \<open>owner\<close> and \<open>depth\<close> are the
  thread holding the lock and its recursion level; \<open>waiting\<close> are the threads blocked in
  \<open>wait()\<close>, each with the recursion level it gave up; \<open>woken\<close> are those a
  \<open>notify_all()\<close> has released and that have not taken the lock back yet.
\<close>

type_synonym thread = nat

record condition =
  owner :: "thread option"
  depth :: nat
  waiting :: "(thread \<times> nat) list"
  woken :: "(thread \<times> nat) list"

text \<open>
  The fields of the object (\<open>self.username\<close> ... \<open>self.authorization\<close>), the two files
  under \<open>$HOME/.trakt\<close> (\<open>None\<close>: the file does not exist) and the trace of actions.
\<close>

record state =
  credentials_file :: "string option"
  auth_token_file :: "string option"
  trace :: "action list"
  username :: string
  client_id :: string
  client_secret :: string
  is_authenticating :: condition
  authorization :: json

text \<open>
  A call returns a value, raises, or blocks on the lock; each time the state it leaves
  behind is kept, since files written and calls made before an exception stay made.
\<close>

datatype 'a outcome = Returns 'a state | Raises exn state | Blocks state

type_synonym 'a operation = "state \<Rightarrow> 'a outcome"

definition and_then :: "'a operation \<Rightarrow> ('a \<Rightarrow> 'b operation) \<Rightarrow> 'b operation" where
  "and_then m f s =
     (case m s of
        Returns x s' \<Rightarrow> f x s'
      | Raises e s' \<Rightarrow> Raises e s'
      | Blocks s' \<Rightarrow> Blocks s')"

definition seq :: "unit operation \<Rightarrow> 'b operation \<Rightarrow> 'b operation" where
  "seq m n = and_then m (\<lambda>_. n)"

definition emit :: "action \<Rightarrow> unit operation" where
  "emit a s = Returns () (s\<lparr>trace := trace s @ [a]\<rparr>)"

fun final_state :: "'a outcome \<Rightarrow> state" where
  "final_state (Returns x s) = s"
| "final_state (Raises e s) = s"
| "final_state (Blocks s) = s"

fun returned :: "'a outcome \<Rightarrow> 'a option" where
  "returned (Returns x s) = Some x"
| "returned (Raises e s) = None"
| "returned (Blocks s) = None"

fun raised :: "'a outcome \<Rightarrow> exn option" where
  "raised (Returns x s) = None"
| "raised (Raises e s) = Some e"
| "raised (Blocks s) = None"

text \<open>
  The JSON module the code imports (the name \<open>json\<close> ends up bound to the module that
  \<open>flask\<close> exports), as the two functions it calls. It belongs to the Python
  installation, not to the repository, so the model takes it as a parameter:
  \<open>json_dump\<close> is the text \<open>json.dump\<close> writes, \<open>json_load\<close> the value \<open>json.load\<close>
  returns, \<open>None\<close> where it raises.
\<close>

record json_module =
  json_dump :: "json \<Rightarrow> string"
  json_load :: "string \<Rightarrow> json option"

section \<open>The handshake lock\<close>

definition Condition :: condition where
  "Condition = \<lparr>owner = None, depth = 0, waiting = [], woken = []\<rparr>"

text \<open>The lock is free, or the calling thread holds it already and enters once more.\<close>

definition cond_acquire :: "thread \<Rightarrow> condition \<Rightarrow> condition option" where
  "cond_acquire t c =
     (if owner c = None then Some (c\<lparr>owner := Some t, depth := 1\<rparr>)
      else if owner c = Some t then Some (c\<lparr>depth := depth c + 1\<rparr>)
      else None)"

definition cond_release :: "thread \<Rightarrow> condition \<Rightarrow> condition option" where
  "cond_release t c =
     (if owner c = Some t
      then Some (if depth c \<le> 1 then c\<lparr>owner := None, depth := 0\<rparr>
                 else c\<lparr>depth := depth c - 1\<rparr>)
      else None)"

definition cond_notify_all :: "thread \<Rightarrow> condition \<Rightarrow> condition option" where
  "cond_notify_all t c =
     (if owner c = Some t then Some (c\<lparr>waiting := [], woken := woken c @ waiting c\<rparr>)
      else None)"

text \<open>
  \<open>wait()\<close> in two halves. The first gives the lock up at every recursion level and
  queues the thread; the second runs once the thread has been notified and the lock is
  free, and takes the lock back at the saved level.
\<close>

definition cond_wait_release :: "thread \<Rightarrow> condition \<Rightarrow> condition option" where
  "cond_wait_release t c =
     (if owner c = Some t
      then Some (c\<lparr>owner := None, depth := 0, waiting := waiting c @ [(t, depth c)]\<rparr>)
      else None)"

definition cond_wait_wakeup :: "thread \<Rightarrow> condition \<Rightarrow> condition option" where
  "cond_wait_wakeup t c =
     (case map_of (woken c) t of
        None \<Rightarrow> None
      | Some d \<Rightarrow>
          if owner c = None
          then Some (c\<lparr>owner := Some t, depth := d,
                       woken := filter (\<lambda>w. fst w \<noteq> t) (woken c)\<rparr>)
          else None)"

text \<open>\<open>self.is_authenticating.acquire(blocking=False)\<close>: never blocks, tells whether it got the lock.\<close>

definition acquire_nonblocking :: "thread \<Rightarrow> bool operation" where
  "acquire_nonblocking t s =
     (case cond_acquire t (is_authenticating s) of
        None \<Rightarrow> Returns False s
      | Some c \<Rightarrow> Returns True (s\<lparr>is_authenticating := c\<rparr>))"

definition acquire :: "thread \<Rightarrow> unit operation" where
  "acquire t s =
     (case cond_acquire t (is_authenticating s) of
        None \<Rightarrow> Blocks s
      | Some c \<Rightarrow> Returns () (s\<lparr>is_authenticating := c\<rparr>))"

definition release :: "thread \<Rightarrow> unit operation" where
  "release t s =
     (case cond_release t (is_authenticating s) of
        None \<Rightarrow> Raises RuntimeError s
      | Some c \<Rightarrow> Returns () (s\<lparr>is_authenticating := c\<rparr>))"

definition notify_all :: "thread \<Rightarrow> unit operation" where
  "notify_all t s =
     (case cond_notify_all t (is_authenticating s) of
        None \<Rightarrow> Raises RuntimeError s
      | Some c \<Rightarrow> Returns () (s\<lparr>is_authenticating := c\<rparr>))"

definition wait_release :: "thread \<Rightarrow> unit operation" where
  "wait_release t s =
     (case cond_wait_release t (is_authenticating s) of
        None \<Rightarrow> Raises RuntimeError s
      | Some c \<Rightarrow> Returns () (s\<lparr>is_authenticating := c\<rparr>))"

text \<open>Without a timeout \<open>wait()\<close> returns \<open>True\<close>, whoever notified it and why.\<close>

definition wait_wakeup :: "thread \<Rightarrow> bool operation" where
  "wait_wakeup t s =
     (case cond_wait_wakeup t (is_authenticating s) of
        None \<Rightarrow> Blocks s
      | Some c \<Rightarrow> Returns True (s\<lparr>is_authenticating := c\<rparr>))"

section \<open>The device-code handshake\<close>

definition store_auth :: "json_module \<Rightarrow> unit operation" where
  "store_auth J s = Returns () (s\<lparr>auth_token_file := Some (json_dump J (authorization s))\<rparr>)"

text \<open>
  \<^verbatim>\<open>
    if not os.path.exists(self.auth_token):
        return None
    with open(self.auth_token, 'r') as f:
        return json.load(f)
  \<close>
\<close>

definition read_auth :: "json_module \<Rightarrow> json operation" where
  "read_auth J s =
     (case auth_token_file s of
        None \<Rightarrow> Returns JNull s
      | Some content \<Rightarrow>
          (case json_load J content of
             None \<Rightarrow> Raises JSONDecodeError s
           | Some v \<Rightarrow> Returns v s))"

text \<open>The hooks the poller thread \<open>t\<close> runs: each takes the lock, notifies and lets go.\<close>

definition on_aborted :: "thread \<Rightarrow> unit operation" where
  "on_aborted t =
     seq (emit (Print Authentication_aborted))
    (seq (acquire t)
    (seq (notify_all t)
         (release t)))"

definition on_authenticated :: "thread \<Rightarrow> json \<Rightarrow> unit operation" where
  "on_authenticated t a =
     seq (acquire t)
    (seq (\<lambda>s. Returns () (s\<lparr>authorization := a\<rparr>))
    (seq (\<lambda>s. emit (Print (Authentication_successful (authorization s))) s)
    (seq (notify_all t)
         (release t))))"

definition on_expired :: "thread \<Rightarrow> unit operation" where
  "on_expired t =
     seq (emit (Print Authentication_expired))
    (seq (acquire t)
    (seq (notify_all t)
         (release t)))"

text \<open>\<open>on_poll\<close> is handed the poller's callback and calls it: \<open>callback(True)\<close>.\<close>

definition on_poll :: "(bool \<Rightarrow> 'r) \<Rightarrow> 'r" where
  "on_poll callback = callback True"

definition on_token_refreshed :: "json \<Rightarrow> unit operation" where
  "on_token_refreshed a =
     seq (\<lambda>s. Returns () (s\<lparr>authorization := a\<rparr>))
         (\<lambda>s. emit (Print (Token_refreshed (authorization s))) s)"

text \<open>
  What the library's poller does once started, seen from the hooks: a number of poll
  ticks, each handing \<open>on_poll\<close> a callback whose argument says whether to go on (as the
  docstring of \<open>on_poll\<close> has it: \<open>True\<close> to continue polling, \<open>False\<close> to abort), then one
  terminal event. A \<open>False\<close> makes the poller stop and report \<open>aborted\<close>.
\<close>

datatype event = Aborted | Authenticated json | Expired

fun deliver :: "thread \<Rightarrow> event \<Rightarrow> unit operation" where
  "deliver t Aborted = on_aborted t"
| "deliver t (Authenticated a) = on_authenticated t a"
| "deliver t Expired = on_expired t"

fun poller_run :: "thread \<Rightarrow> nat \<Rightarrow> event \<Rightarrow> unit operation" where
  "poller_run t 0 ev = deliver t ev"
| "poller_run t (Suc n) ev =
     (let continue = on_poll (\<lambda>b. b) in
      seq (emit (Poll_callback continue))
          (if continue then poller_run t n ev else deliver t Aborted))"

text \<open>
  What the outside contributes to one handshake: the answer of
  \<open>Trakt['oauth/device'].code()\<close>, the thread the poller runs on, the number of poll
  ticks and the terminal event.
\<close>

record handshake =
  device_code :: json
  poller_thread :: thread
  ticks :: nat
  terminal :: event

definition dict_get :: "(string \<times> json) list \<Rightarrow> string \<Rightarrow> json" where
  "dict_get d k = (case map_of d k of None \<Rightarrow> JNull | Some v \<Rightarrow> v)"

text \<open>
  \<open>authenticate\<close> up to the point where the caller sleeps in \<open>wait()\<close>. The result is
  what the call returned if it is over (\<open>Some False\<close>: the lock was taken), or \<open>None\<close>
  if the caller now waits for the poller. \<open>code.get\<close> raises when the library returned no
  dict for the device code.
\<close>

definition authenticate_begin :: "thread \<Rightarrow> json \<Rightarrow> bool option operation" where
  "authenticate_begin t code =
     and_then (acquire_nonblocking t) (\<lambda>got.
       if \<not> got then
         seq (emit (Print Already_started)) (\<lambda>s. Returns (Some False) s)
       else
         seq (emit Oauth_device_code)
           (case code of
              JObj d \<Rightarrow>
                seq (emit (Print (Enter_code (dict_get d ''user_code'')
                                             (dict_get d ''verification_url''))))
               (seq (emit (Poller_start code))
               (seq (wait_release t)
                    (\<lambda>s. Returns None s)))
            | _ \<Rightarrow> (\<lambda>s. Raises AttributeError s)))"

text \<open>
  From the wake-up on:
  \<^verbatim>\<open>
    result = self.is_authenticating.wait()
    self.store_auth()
    return result
  \<close>
\<close>

definition authenticate_end :: "json_module \<Rightarrow> thread \<Rightarrow> bool operation" where
  "authenticate_end J t =
     and_then (wait_wakeup t) (\<lambda>result.
       seq (store_auth J) (\<lambda>s. Returns result s))"

text \<open>One call of \<open>authenticate\<close> with the poller it starts running in between.\<close>

definition authenticate :: "json_module \<Rightarrow> thread \<Rightarrow> handshake \<Rightarrow> bool operation" where
  "authenticate J t h =
     and_then (authenticate_begin t (device_code h)) (\<lambda>r.
       case r of
         Some b \<Rightarrow> (\<lambda>s. Returns b s)
       | None \<Rightarrow>
           seq (poller_run (poller_thread h) (ticks h) (terminal h))
               (authenticate_end J t))"

text \<open>
  \<open>__init__\<close>: credentials, a fresh condition, the stored authorization, and a handshake
  if there is none. The fields of the object are whatever they were before. Configuring
  the client library and binding \<open>on_token_refreshed\<close> to \<open>oauth.token_refreshed\<close>
  change nothing in this state; the binding is why a request that refreshes the token
  runs the hook.
\<close>

definition init :: "json_module \<Rightarrow> thread \<Rightarrow> handshake \<Rightarrow> string \<Rightarrow> unit operation" where
  "init J t h user s =
     (case read_credentials (credentials_file s) of
        Inl e \<Rightarrow> Raises e s
      | Inr credentials \<Rightarrow>
          (let s1 = s\<lparr>username := user\<rparr> in
           case credentials ''client_id'' of
             None \<Rightarrow> Raises (KeyError ''client_id'') s1
           | Some cid \<Rightarrow>
               (let s2 = s1\<lparr>client_id := cid\<rparr> in
                case credentials ''client_secret'' of
                  None \<Rightarrow> Raises (KeyError ''client_secret'') s2
                | Some secret \<Rightarrow>
                    (let s3 = s2\<lparr>client_secret := secret, is_authenticating := Condition\<rparr> in
                     and_then (read_auth J) (\<lambda>a.
                       seq (\<lambda>s. Returns () (s\<lparr>authorization := a\<rparr>))
                           (\<lambda>s. if authorization s = JNull
                                then and_then (authenticate J t h) (\<lambda>_ s. Returns () s) s
                                else Returns () s)) s3))))"

section \<open>Watchlist and history operations\<close>

text \<open>
  The answers of the remote service, as the client library hands them to the code: a
  lookup yields \<open>None\<close>, a media object or a list; a query yields a list, or \<open>None\<close>
  when the request failed. \<open>token_refresh\<close> says whether a request made with the given
  authorization finds the access token expired, and the new authorization if so.
\<close>

record trakt_api =
  search_lookup :: "string \<Rightarrow> pyobj"
  search_query :: "string \<Rightarrow> string \<Rightarrow> media list option"
  shows_episode :: "string option \<Rightarrow> int \<Rightarrow> int \<Rightarrow> media option"
  shows_season :: "string option \<Rightarrow> int \<Rightarrow> media list option"
  sync_watchlist_add :: "json \<Rightarrow> json"
  sync_history_add :: "json \<Rightarrow> json"
  token_refresh :: "json \<Rightarrow> json option"

definition request :: "action \<Rightarrow> 'a \<Rightarrow> 'a operation" where
  "request a r = seq (emit a) (\<lambda>s. Returns r s)"

text \<open>
  A request made inside
  \<open>with Trakt.configuration.oauth.from_response(self.authorization, refresh=True)\<close>:
  an expired token is refreshed first, and the library fires \<open>oauth.token_refreshed\<close>,
  to which \<open>__init__\<close> has bound \<open>on_token_refreshed\<close>.
\<close>

definition oauth_request :: "trakt_api \<Rightarrow> action \<Rightarrow> 'a \<Rightarrow> 'a operation" where
  "oauth_request T a r s =
     (case token_refresh T (authorization s) of
        None \<Rightarrow> request a r s
      | Some new \<Rightarrow> seq (on_token_refreshed new) (request a r) s)"

definition do_lookup :: "trakt_api \<Rightarrow> string \<Rightarrow> pyobj operation" where
  "do_lookup T imdb_id = oauth_request T (Search_lookup imdb_id) (search_lookup T imdb_id)"

text \<open>\<open>d[k] = v\<close> on a dict kept in insertion order.\<close>

fun dict_set :: "('k \<times> 'v) list \<Rightarrow> 'k \<Rightarrow> 'v \<Rightarrow> ('k \<times> 'v) list" where
  "dict_set [] k v = [(k, v)]"
| "dict_set (p # ps) k v = (if fst p = k then (k, v) # ps else p # dict_set ps k v)"

text \<open>
  \<^verbatim>\<open>
    shows = Trakt['search'].query(show.replace('_', ' '), media=media, pagination=True)
    shows = {s.get_key('imdb'): s.to_dict() for s in shows}
    return shows
  \<close>
  The comprehension raises on \<open>None\<close>; otherwise the result is a dict, never a list.
\<close>

definition do_query :: "trakt_api \<Rightarrow> string \<Rightarrow> string \<Rightarrow> pyobj operation" where
  "do_query T show kind =
     (let q = map (\<lambda>c. if c = CHR ''_'' then CHR '' '' else c) show in
      and_then (oauth_request T (Search_query q kind) (search_query T q kind)) (\<lambda>shows.
        case shows of
          None \<Rightarrow> (\<lambda>s. Raises TypeError s)
        | Some ms \<Rightarrow>
            (\<lambda>s. Returns (PDict (foldl (\<lambda>d m. dict_set d (get_key_imdb m) (to_dict m)) [] ms)) s)))"

definition truthy :: "string option \<Rightarrow> bool" where
  "truthy x = (case x of None \<Rightarrow> False | Some v \<Rightarrow> v \<noteq> [])"

definition truthy_int :: "int option \<Rightarrow> bool" where
  "truthy_int x = (case x of None \<Rightarrow> False | Some n \<Rightarrow> n \<noteq> 0)"

text \<open>
  The opening of every operation; with neither argument \<open>show_obj\<close> stays unbound and its
  first use raises.
  \<^verbatim>\<open>
    if imdb_id:
        show_obj = self.do_lookup(imdb_id)
    elif show:
        show_obj = self.do_query(show)
  \<close>
\<close>

definition lookup_or_query :: "trakt_api \<Rightarrow> string option \<Rightarrow> string option \<Rightarrow> pyobj operation" where
  "lookup_or_query T show imdb_id =
     (if truthy imdb_id then do_lookup T (the imdb_id)
      else if truthy show then do_query T (the show) ''show''
      else (\<lambda>s. Raises UnboundLocalError s))"

definition empty_dict :: json where
  "empty_dict = JObj []"

definition add_show_to_watchlist :: "trakt_api \<Rightarrow> string option \<Rightarrow> string option \<Rightarrow> json operation" where
  "add_show_to_watchlist T show imdb_id =
     and_then (lookup_or_query T show imdb_id) (\<lambda>show_obj.
       if show_obj = PList [] then (\<lambda>s. Returns empty_dict s)
       else
         (case (case show_obj of PList ms \<Rightarrow> PMedia (hd ms) | _ \<Rightarrow> show_obj) of
            PNone \<Rightarrow> (\<lambda>s. Returns empty_dict s)
          | PMedia m \<Rightarrow>
              (let items = JObj [(''shows'', JArr [to_dict m])] in
               oauth_request T (Watchlist_add items) (sync_watchlist_add T items))
          | _ \<Rightarrow> (\<lambda>s. Raises AttributeError s)))"

definition add_episode_to_watched ::
  "trakt_api \<Rightarrow> string option \<Rightarrow> string option \<Rightarrow> int option \<Rightarrow> int option \<Rightarrow> json operation" where
  "add_episode_to_watched T show imdb_id season episode =
     and_then (lookup_or_query T show imdb_id) (\<lambda>show_obj.
       if show_obj = PNone then (\<lambda>s. Returns empty_dict s)
       else if show_obj = PList [] then (\<lambda>s. Returns empty_dict s)
       else
         (let obj = (case show_obj of PList ms \<Rightarrow> PMedia (hd ms) | _ \<Rightarrow> show_obj) in
          if truthy_int season \<and> truthy_int episode then
            seq (emit (Print_obj obj))
              (case obj of
                 PMedia m \<Rightarrow>
                   and_then (request (Shows_episode (get_key_imdb m) (the season) (the episode))
                               (shows_episode T (get_key_imdb m) (the season) (the episode)))
                     (\<lambda>found.
                        case found of
                          None \<Rightarrow> (\<lambda>s. Returns empty_dict s)
                        | Some e \<Rightarrow>
                            (let items = JObj [(''episodes'', JArr [to_dict e])] in
                             oauth_request T (History_add items) (sync_history_add T items)))
               | _ \<Rightarrow> (\<lambda>s. Raises AttributeError s))
          else if truthy_int season then
            (case obj of
               PMedia m \<Rightarrow>
                 and_then (oauth_request T (Shows_season (get_key_imdb m) (the season))
                             (shows_season T (get_key_imdb m) (the season)))
                   (\<lambda>episodes.
                      case episodes of
                        None \<Rightarrow> (\<lambda>s. Returns empty_dict s)
                      | Some es \<Rightarrow>
                          if es = [] then (\<lambda>s. Returns empty_dict s)
                          else
                            (let items = JObj [(''episodes'', JArr (map to_dict es))] in
                             oauth_request T (History_add items) (sync_history_add T items)))
             | _ \<Rightarrow> (\<lambda>s. Raises AttributeError s))
          else (\<lambda>s. Returns JNull s)))"

text \<open>
  The sibling operation for movies, which does test for the dict of \<open>do_query\<close>:
  \<^verbatim>\<open>
    if isinstance(show_obj, dict):
        if not show_obj:
            return {}
        show_obj.values()[0]
  \<close>
  (the last line raises for a dict that is not empty: a view cannot be indexed).
\<close>

definition add_movie_to_watched :: "trakt_api \<Rightarrow> string option \<Rightarrow> string option \<Rightarrow> json operation" where
  "add_movie_to_watched T title imdb_id =
     and_then (lookup_or_query T title imdb_id) (\<lambda>show_obj.
       if show_obj = PList [] then (\<lambda>s. Returns empty_dict s)
       else
         (case (case show_obj of PList ms \<Rightarrow> PMedia (hd ms) | _ \<Rightarrow> show_obj) of
            PDict d \<Rightarrow> (if d = [] then (\<lambda>s. Returns empty_dict s) else (\<lambda>s. Raises TypeError s))
          | PMedia m \<Rightarrow>
              (let items = JObj [(''movies'', JArr [to_dict m])] in
               oauth_request T (History_add items) (sync_history_add T items))
          | _ \<Rightarrow> (\<lambda>s. Raises AttributeError s)))"

text \<open>The requests that change what the remote service stores.\<close>

fun is_add :: "action \<Rightarrow> bool" where
  "is_add (Watchlist_add items) = True"
| "is_add (History_add items) = True"
| "is_add _ = False"

section \<open>The synchronisation script: \<open>sync_db\<close>\<close>

text \<open>
  \<open>endpoint0\<close> is \<open>https://www.ddboline.net\<close>, \<open>endpoint1\<close> is
  \<open>https://cloud.ddboline.net\<close>. The requests the script sends, in order, are its trace:
  \<open>Get_list e table ts\<close> is \<open>GET e/list/table?start_timestamp=ts\<close>, and
  \<open>Post_list e table key records\<close> is \<open>POST e/list/table\<close> with the body
  \<open>{key: records}\<close>.
\<close>

datatype endpoint = Endpoint0 | Endpoint1

datatype ('t, 'r) http =
    Post_auth endpoint
  | Get_last_modified endpoint
  | Get_list endpoint string 't
  | Post_list endpoint string string 'r

definition entry_map :: "string \<rightharpoonup> string" where
  "entry_map =
     [''imdb_episodes'' \<mapsto> ''episodes'',
      ''imdb_ratings'' \<mapsto> ''shows'',
      ''movie_collection'' \<mapsto> ''collection'',
      ''movie_queue'' \<mapsto> ''queue'']"

definition dry_run :: bool where
  "dry_run = True"

text \<open>\<open>{x['table']: x['last_modified'] for x in listing}\<close>: a later entry replaces an earlier one.\<close>

definition dict_of :: "(string \<times> 't) list \<Rightarrow> (string \<rightharpoonup> 't)" where
  "dict_of listing = map_of (rev listing)"

text \<open>
  One of the two \<open>if\<close> blocks of the loop body, from \<open>src\<close> to \<open>dst\<close>: the records of
  \<open>src\<close> since \<open>start\<close> are fetched; they are posted to \<open>dst\<close> unless \<open>dry\<close>, under the
  key \<open>entry_map[table]\<close>, which raises for a table the map does not know. \<open>fetch\<close> is
  what the services answer.
\<close>

definition transfer ::
  "bool \<Rightarrow> (endpoint \<Rightarrow> string \<Rightarrow> 't \<Rightarrow> 'r) \<Rightarrow> endpoint \<Rightarrow> endpoint \<Rightarrow> string \<Rightarrow> 't \<Rightarrow>
   ('t, 'r) http list \<Rightarrow> exn option \<times> ('t, 'r) http list" where
  "transfer dry fetch src dst table start log =
     (let log1 = log @ [Get_list src table start];
          resp = fetch src table start
      in if \<not> dry
         then (case entry_map table of
                 None \<Rightarrow> (Some (KeyError table), log1)
               | Some key \<Rightarrow> (None, log1 @ [Post_list dst table key resp]))
         else (None, log1))"

definition sync_table ::
  "bool \<Rightarrow> (endpoint \<Rightarrow> string \<Rightarrow> 't \<Rightarrow> 'r) \<Rightarrow> (string \<rightharpoonup> 't) \<Rightarrow> (string \<rightharpoonup> 't) \<Rightarrow> string \<Rightarrow>
   ('t, 'r) http list \<Rightarrow> exn option \<times> (('t::linorder), 'r) http list" where
  "sync_table dry fetch last_modified0 last_modified1 table log =
     (case last_modified0 table of
        None \<Rightarrow> (Some (KeyError table), log)
      | Some mod0 \<Rightarrow>
          (case last_modified1 table of
             None \<Rightarrow> (Some (KeyError table), log)
           | Some mod1 \<Rightarrow>
               (case (if mod0 > mod1
                      then transfer dry fetch Endpoint0 Endpoint1 table mod1 log
                      else (None, log)) of
                  (Some e, log1) \<Rightarrow> (Some e, log1)
                | (None, log1) \<Rightarrow>
                    (if mod1 > mod0
                     then transfer dry fetch Endpoint1 Endpoint0 table mod0 log1
                     else (None, log1)))))"

fun sync_tables ::
  "bool \<Rightarrow> (endpoint \<Rightarrow> string \<Rightarrow> 't \<Rightarrow> 'r) \<Rightarrow> (string \<rightharpoonup> 't) \<Rightarrow> (string \<rightharpoonup> 't) \<Rightarrow> string list \<Rightarrow>
   ('t, 'r) http list \<Rightarrow> exn option \<times> (('t::linorder), 'r) http list" where
  "sync_tables dry fetch last_modified0 last_modified1 [] log = (None, log)"
| "sync_tables dry fetch last_modified0 last_modified1 (table # tables) log =
     (case sync_table dry fetch last_modified0 last_modified1 table log of
        (Some e, log1) \<Rightarrow> (Some e, log1)
      | (None, log1) \<Rightarrow> sync_tables dry fetch last_modified0 last_modified1 tables log1)"

text \<open>
  The script. \<open>tables\<close> is the order in which the loop meets
  \<open>set(last_modified0) & set(last_modified1)\<close>, which Python leaves open.
\<close>

definition common_tables :: "(string \<times> 't) list \<Rightarrow> (string \<times> 't) list \<Rightarrow> string set" where
  "common_tables listing0 listing1 = dom (dict_of listing0) \<inter> dom (dict_of listing1)"

definition sync_db ::
  "(endpoint \<Rightarrow> string \<Rightarrow> 't \<Rightarrow> 'r) \<Rightarrow> (string \<times> 't) list \<Rightarrow> (string \<times> 't) list \<Rightarrow> string list \<Rightarrow>
   exn option \<times> (('t::linorder), 'r) http list" where
  "sync_db fetch listing0 listing1 tables =
     sync_tables dry_run fetch (dict_of listing0) (dict_of listing1) tables
       [Post_auth Endpoint0, Post_auth Endpoint1,
        Get_last_modified Endpoint0, Get_last_modified Endpoint1]"

text \<open>What the newest-wins rule asks for one table, to compare the loop with.\<close>

definition newest_wins ::
  "bool \<Rightarrow> (endpoint \<Rightarrow> string \<Rightarrow> 't \<Rightarrow> 'r) \<Rightarrow> (string \<rightharpoonup> 't) \<Rightarrow> (string \<rightharpoonup> 't) \<Rightarrow> string \<Rightarrow>
   (('t::linorder), 'r) http list" where
  "newest_wins post fetch last_modified0 last_modified1 table =
     (case (last_modified0 table, last_modified1 table) of
        (Some mod0, Some mod1) \<Rightarrow>
          if mod0 > mod1 then
            Get_list Endpoint0 table mod1 #
              (if post then [Post_list Endpoint1 table (the (entry_map table))
                                (fetch Endpoint0 table mod1)] else [])
          else if mod1 > mod0 then
            Get_list Endpoint1 table mod0 #
              (if post then [Post_list Endpoint0 table (the (entry_map table))
                                (fetch Endpoint1 table mod0)] else [])
          else []
      | _ \<Rightarrow> [])"

fun is_post_list :: "('t, 'r) http \<Rightarrow> bool" where
  "is_post_list (Post_list e table key records) = True"
| "is_post_list _ = False"

fun table_of :: "('t, 'r) http \<Rightarrow> string option" where
  "table_of (Get_list e table ts) = Some table"
| "table_of (Post_list e table key records) = Some table"
| "table_of _ = None"

section \<open>A JSON module to run the model with\<close>

text \<open>
  The text Python's \<open>json.dump\<close> writes with its default separators, and a reader for
  it, for documents whose strings are printable ASCII. The numbers are integers.
\<close>

definition digit_char :: "nat \<Rightarrow> char" where
  "digit_char d = char_of (48 + d)"

fun nat_str :: "nat \<Rightarrow> string" where
  "nat_str n = (if n < 10 then [digit_char n] else nat_str (n div 10) @ [digit_char (n mod 10)])"

definition int_str :: "int \<Rightarrow> string" where
  "int_str i = (if i < 0 then CHR ''-'' # nat_str (nat (- i)) else nat_str (nat i))"

fun escape :: "string \<Rightarrow> string" where
  "escape [] = []"
| "escape (c # cs) =
     (if c = CHR 0x22 \<or> c = CHR 0x5C then CHR 0x5C # c # escape cs else c # escape cs)"

definition quoted :: "string \<Rightarrow> string" where
  "quoted s = CHR 0x22 # escape s @ [CHR 0x22]"

fun join :: "string \<Rightarrow> string list \<Rightarrow> string" where
  "join sep [] = []"
| "join sep [x] = x"
| "join sep (x # y # ys) = x @ sep @ join sep (y # ys)"

fun dumps :: "json \<Rightarrow> string" where
  "dumps JNull = ''null''"
| "dumps (JBool b) = (if b then ''true'' else ''false'')"
| "dumps (JNum i) = int_str i"
| "dumps (JStr s) = quoted s"
| "dumps (JArr xs) = ''['' @ join '', '' (map dumps xs) @ '']''"
| "dumps (JObj kvs) =
     ''{'' @ join '', '' (map (\<lambda>kv. quoted (fst kv) @ '': '' @ dumps (snd kv)) kvs) @ ''}''"

definition json_space :: "char \<Rightarrow> bool" where
  "json_space c = (c = CHR '' '' \<or> c = CHR 0x09 \<or> c = CHR 0x0A \<or> c = CHR 0x0D)"

definition is_digit :: "char \<Rightarrow> bool" where
  "is_digit c = (48 \<le> (of_char c :: nat) \<and> (of_char c :: nat) \<le> 57)"

definition digits_value :: "string \<Rightarrow> nat" where
  "digits_value ds = foldl (\<lambda>n c. 10 * n + (of_char c - 48)) 0 ds"

text \<open>The characters of a string after its opening quote, and what follows the closing one.\<close>

fun read_string :: "string \<Rightarrow> (string \<times> string) option" where
  "read_string [] = None"
| "read_string (c # cs) =
     (if c = CHR 0x22 then Some ([], cs)
      else if c = CHR 0x5C then
        (case cs of
           [] \<Rightarrow> None
         | e # rest \<Rightarrow>
             if e = CHR 0x22 \<or> e = CHR 0x5C
             then map_option (\<lambda>p. (e # fst p, snd p)) (read_string rest)
             else None)
      else map_option (\<lambda>p. (c # fst p, snd p)) (read_string cs))"

definition read_number :: "string \<Rightarrow> (json \<times> string) option" where
  "read_number s =
     (let neg = (s \<noteq> [] \<and> hd s = CHR ''-'');
          body = (if neg then tl s else s);
          ds = takeWhile is_digit body
      in if ds = [] then None
         else Some (JNum (if neg then - int (digits_value ds) else int (digits_value ds)),
                    dropWhile is_digit body))"

text \<open>
  Recursive descent with a bound on the depth of the calls: \<open>read_value\<close> reads one
  document, \<open>read_items\<close> the rest of a list after \<open>[\<close>, \<open>read_members\<close> the rest of an
  object after \<open>{\<close>. Each returns what it read and the unread text.
\<close>

fun read_value :: "nat \<Rightarrow> string \<Rightarrow> (json \<times> string) option"
  and read_items :: "nat \<Rightarrow> string \<Rightarrow> (json list \<times> string) option"
  and read_members :: "nat \<Rightarrow> string \<Rightarrow> ((string \<times> json) list \<times> string) option"
where
  "read_value 0 s = None"
| "read_value (Suc n) s =
     (case dropWhile json_space s of
        [] \<Rightarrow> None
      | c # cs \<Rightarrow>
          if c = CHR 0x22 then map_option (\<lambda>p. (JStr (fst p), snd p)) (read_string cs)
          else if c = CHR ''['' then
            (case dropWhile json_space cs of
               [] \<Rightarrow> None
             | d # ds \<Rightarrow>
                 if d = CHR '']'' then Some (JArr [], ds)
                 else map_option (\<lambda>p. (JArr (fst p), snd p)) (read_items n cs))
          else if c = CHR ''{'' then
            (case dropWhile json_space cs of
               [] \<Rightarrow> None
             | d # ds \<Rightarrow>
                 if d = CHR ''}'' then Some (JObj [], ds)
                 else map_option (\<lambda>p. (JObj (fst p), snd p)) (read_members n cs))
          else if take 4 (c # cs) = ''null'' then Some (JNull, drop 3 cs)
          else if take 4 (c # cs) = ''true'' then Some (JBool True, drop 3 cs)
          else if take 5 (c # cs) = ''false'' then Some (JBool False, drop 4 cs)
          else read_number (c # cs))"
| "read_items 0 s = None"
| "read_items (Suc n) s =
     (case read_value n s of
        None \<Rightarrow> None
      | Some (v, r) \<Rightarrow>
          (case dropWhile json_space r of
             [] \<Rightarrow> None
           | c # cs \<Rightarrow>
               if c = CHR '','' then map_option (\<lambda>p. (v # fst p, snd p)) (read_items n cs)
               else if c = CHR '']'' then Some ([v], cs)
               else None))"
| "read_members 0 s = None"
| "read_members (Suc n) s =
     (case dropWhile json_space s of
        [] \<Rightarrow> None
      | q # qs \<Rightarrow>
          if q \<noteq> CHR 0x22 then None
          else
            (case read_string qs of
               None \<Rightarrow> None
             | Some (k, r) \<Rightarrow>
                 (case dropWhile json_space r of
                    [] \<Rightarrow> None
                  | c # cs \<Rightarrow>
                      if c \<noteq> CHR '':'' then None
                      else
                        (case read_value n cs of
                           None \<Rightarrow> None
                         | Some (v, r1) \<Rightarrow>
                             (case dropWhile json_space r1 of
                                [] \<Rightarrow> None
                              | e # es \<Rightarrow>
                                  if e = CHR '','' then
                                    map_option (\<lambda>p. ((k, v) # fst p, snd p)) (read_members n es)
                                  else if e = CHR ''}'' then Some ([(k, v)], es)
                                  else None)))))"

definition loads :: "string \<Rightarrow> json option" where
  "loads s =
     (case read_value (Suc (length s)) s of
        None \<Rightarrow> None
      | Some (v, r) \<Rightarrow> if dropWhile json_space r = [] then Some v else None)"

definition python_json :: json_module where
  "python_json = \<lparr>json_dump = dumps, json_load = loads\<rparr>"

section \<open>Notions the statements use\<close>

text \<open>The lock is free for thread \<open>t\<close> to take: nobody holds it, or \<open>t\<close> itself does.\<close>

definition lock_available :: "thread \<Rightarrow> state \<Rightarrow> bool" where
  "lock_available t s =
     (owner (is_authenticating s) = None \<or> owner (is_authenticating s) = Some t)"

fun event_message :: "event \<Rightarrow> message" where
  "event_message Aborted = Authentication_aborted"
| "event_message (Authenticated a) = Authentication_successful a"
| "event_message Expired = Authentication_expired"

text \<open>\<open>self.authorization\<close> once the hook of the terminal event has run.\<close>

fun authorization_after :: "event \<Rightarrow> json \<Rightarrow> json" where
  "authorization_after Aborted a = a"
| "authorization_after (Authenticated p) a = p"
| "authorization_after Expired a = a"

text \<open>Everything one complete handshake adds to the trace.\<close>

definition handshake_trace :: "handshake \<Rightarrow> action list" where
  "handshake_trace h =
     [Oauth_device_code,
      Print (case device_code h of
               JObj d \<Rightarrow> Enter_code (dict_get d ''user_code'') (dict_get d ''verification_url'')
             | _ \<Rightarrow> Enter_code JNull JNull),
      Poller_start (device_code h)]
     @ replicate (ticks h) (Poll_callback True)
     @ [Print (event_message (terminal h))]"

text \<open>The arguments the poller's callback was called with, in order.\<close>

fun poll_replies :: "action list \<Rightarrow> bool list" where
  "poll_replies [] = []"
| "poll_replies (Poll_callback b # as) = b # poll_replies as"
| "poll_replies (a # as) = poll_replies as"

text \<open>
  What \<open>read_auth\<close> gets from the token file: Python's \<open>None\<close> when there is no
  file, the document the file holds when it parses, and nothing when the parser raises.
\<close>

definition stored_document :: "json_module \<Rightarrow> state \<Rightarrow> json option" where
  "stored_document J s =
     (case auth_token_file s of
        None \<Rightarrow> Some JNull
      | Some content \<Rightarrow> json_load J content)"

subsection \<open>Concrete inputs\<close>

text \<open>
  An object whose lock is free and which holds no authorization, with a credentials file
  and no token file; and a handshake with two poll ticks.
\<close>

definition example_state :: state where
  "example_state =
     \<lparr>credentials_file = Some ''client_id=abc\<newline>client_secret = xyz\<newline>'',
      auth_token_file = None,
      trace = [],
      username = ''ddboline'',
      client_id = ''abc'',
      client_secret = ''xyz'',
      is_authenticating = Condition,
      authorization = JNull\<rparr>"

definition example_code :: json where
  "example_code = JObj [(''user_code'', JStr ''AB12''), (''verification_url'', JStr ''u'')]"

definition example_handshake :: "event \<Rightarrow> handshake" where
  "example_handshake ev =
     \<lparr>device_code = example_code, poller_thread = 2, ticks = 2, terminal = ev\<rparr>"

definition example_payload :: json where
  "example_payload = JObj [(''access_token'', JStr ''t1'')]"

text \<open>
  The same object with an authorization read from its token file, and with a token
  file of no bytes at all.
\<close>

definition example_old :: json where
  "example_old = JObj [(''access_token'', JStr ''t0'')]"

definition stored_state :: state where
  "stored_state =
     example_state\<lparr>auth_token_file := Some (dumps example_old), authorization := example_old\<rparr>"

definition empty_file_state :: state where
  "empty_file_state = example_state\<lparr>auth_token_file := Some []\<rparr>"

text \<open>
  A remote service that knows no show: every lookup yields \<open>None\<close>, every query the
  empty list, and no token is ever found expired.
\<close>

definition example_api :: trakt_api where
  "example_api =
     \<lparr>search_lookup = (\<lambda>imdb_id. PNone),
      search_query = (\<lambda>q kind. Some []),
      shows_episode = (\<lambda>key season episode. None),
      shows_season = (\<lambda>key season. None),
      sync_watchlist_add = (\<lambda>items. JObj [(''added'', items)]),
      sync_history_add = (\<lambda>items. JObj [(''added'', items)]),
      token_refresh = (\<lambda>a. None)\<rparr>"

text \<open>
  Two listings for the script: \<open>movie_queue\<close> is newer on the first service,
  \<open>imdb_ratings\<close> is equally old on both, and the other two tables are each known to one
  service only.
\<close>

definition example_listing0 :: "(string \<times> nat) list" where
  "example_listing0 = [(''movie_queue'', 2), (''imdb_ratings'', 5), (''imdb_episodes'', 9)]"

definition example_listing1 :: "(string \<times> nat) list" where
  "example_listing1 = [(''movie_queue'', 1), (''imdb_ratings'', 5), (''movie_collection'', 7)]"

definition example_fetch :: "endpoint \<Rightarrow> string \<Rightarrow> nat \<Rightarrow> string list" where
  "example_fetch e table start = [''row'']"


section \<open>Properties of \<open>read_credentials\<close>\<close>

lemma str_split_not_Nil: "str_split c s \<noteq> []"
  by (induction s) (auto split: list.splits)

lemma hd_str_split: "hd (str_split c s) = takeWhile (\<lambda>x. x \<noteq> c) s"
  using str_split_not_Nil[of c]
  by (induction s) (auto split: list.splits)

lemma tl_str_split:
  "tl (str_split c s) =
     (if c \<in> set s then str_split c (drop 1 (dropWhile (\<lambda>x. x \<noteq> c) s)) else [])"
  using str_split_not_Nil[of c]
  by (induction s) (auto split: list.splits)

lemma length_str_split: "1 < length (str_split c s) \<longleftrightarrow> c \<in> set s"
  using tl_str_split[of c s] str_split_not_Nil[of c s]
    str_split_not_Nil[of c "drop 1 (dropWhile (\<lambda>x. x \<noteq> c) s)"]
  by (cases "str_split c s") (auto split: if_splits)

lemma add_credential_eq:
  "add_credential m line =
     (if has_equals line then m(key_text line \<mapsto> value_text line) else m)"
proof (cases "has_equals line")
  case False
  then show ?thesis
    using length_str_split[of "CHR ''=''" line]
    by (simp add: add_credential_def has_equals_def Let_def)
next
  case True
  let ?t = "str_split (CHR ''='') line"
  let ?r = "str_split (CHR ''='') (drop 1 (dropWhile (\<lambda>x. x \<noteq> CHR ''='') line))"
  from True have len: "1 < length ?t"
    using length_str_split[of "CHR ''=''" line] by (simp add: has_equals_def)
  have t: "?t = hd ?t # tl ?t"
    using str_split_not_Nil[of "CHR ''=''" line] by simp
  have r: "tl ?t = hd ?r # tl ?r"
    using tl_str_split[of "CHR ''=''" line] True
      str_split_not_Nil[of "CHR ''=''" "drop 1 (dropWhile (\<lambda>x. x \<noteq> CHR ''='') line)"]
    by (simp add: has_equals_def)
  have "take 2 (map strip ?t) = [key_text line, value_text line]"
    by (subst t, subst r) (simp add: key_text_def value_text_def hd_str_split numeral_2_eq_2)
  with len True show ?thesis
    by (simp add: add_credential_def Let_def)
qed

lemma foldl_add_credential:
  "foldl add_credential m lines key =
     (case filter (\<lambda>l. has_equals l \<and> key_text l = key) lines of
        [] \<Rightarrow> m key
      | l # ls \<Rightarrow> Some (value_text (last (l # ls))))"
proof (induction lines rule: rev_induct)
  case Nil
  then show ?case by simp
next
  case (snoc x xs)
  then show ?case
    by (auto simp: add_credential_eq split: list.splits)
qed

text \<open>
  C10. \<open>read_credentials\<close> returns the mapping built from the lines that contain an
  \<open>=\<close> only: such a line gives the stripped text before its first \<open>=\<close> as key and the
  stripped text between its first and its second \<open>=\<close> (or the end of the line) as value,
  whatever follows a second \<open>=\<close> is dropped, a line without \<open>=\<close> gives nothing, and
  of several lines with one key the last decides. A missing file raises.
\<close>

theorem read_credentials_mapping:
  "read_credentials cfile =
     (case cfile of
        None \<Rightarrow> Inl FileNotFoundError
      | Some content \<Rightarrow> Inr (credentials_spec (readlines content)))"
proof (cases cfile)
  case None
  then show ?thesis by (simp add: read_credentials_def)
next
  case (Some content)
  have "parse_credentials content = credentials_spec (readlines content)"
    by (rule ext) (simp add: parse_credentials_def credentials_spec_def foldl_add_credential)
  with Some show ?thesis by (simp add: read_credentials_def)
qed

section \<open>Properties of the handshake\<close>

lemma deliver_free:
  assumes "owner (is_authenticating s) = None"
  shows "deliver pt ev s = Returns ()
     (s\<lparr>trace := trace s @ [Print (event_message ev)],
        authorization := authorization_after ev (authorization s),
        is_authenticating := (is_authenticating s)\<lparr>owner := None, depth := 0, waiting := [],
           woken := woken (is_authenticating s) @ waiting (is_authenticating s)\<rparr>\<rparr>)"
  using assms
  by (cases ev)
     (simp_all add: on_aborted_def on_authenticated_def on_expired_def seq_def and_then_def
       emit_def acquire_def notify_all_def release_def cond_acquire_def cond_notify_all_def
       cond_release_def)

lemma poller_run_free:
  assumes "owner (is_authenticating s) = None"
  shows "poller_run pt n ev s = Returns ()
     (s\<lparr>trace := trace s @ replicate n (Poll_callback True) @ [Print (event_message ev)],
        authorization := authorization_after ev (authorization s),
        is_authenticating := (is_authenticating s)\<lparr>owner := None, depth := 0, waiting := [],
           woken := woken (is_authenticating s) @ waiting (is_authenticating s)\<rparr>\<rparr>)"
  using assms
proof (induction n arbitrary: s)
  case 0
  then show ?case by (simp add: deliver_free)
next
  case (Suc n)
  have "owner (is_authenticating (s\<lparr>trace := trace s @ [Poll_callback True]\<rparr>)) = None"
    using Suc.prems by simp
  from Suc.IH[OF this] show ?case
    by (simp add: on_poll_def seq_def and_then_def emit_def replicate_app_Cons_same)
qed

lemma authenticate_begin_available:
  assumes "lock_available t s"
  shows "\<exists>c. authenticate_begin t (JObj d) s = Returns None
           (s\<lparr>trace := trace s @ [Oauth_device_code,
                  Print (Enter_code (dict_get d ''user_code'') (dict_get d ''verification_url'')),
                  Poller_start (JObj d)],
              is_authenticating := c\<rparr>)
         \<and> owner c = None \<and> t \<in> fst ` set (waiting c)"
  using assms
  by (auto simp: lock_available_def authenticate_begin_def and_then_def seq_def emit_def
       acquire_nonblocking_def cond_acquire_def wait_release_def cond_wait_release_def)

lemma authenticate_end_woken:
  assumes "owner (is_authenticating s) = None"
    and "t \<in> fst ` set (woken (is_authenticating s))"
  shows "\<exists>c. authenticate_end J t s = Returns True
           (s\<lparr>is_authenticating := c, auth_token_file := Some (json_dump J (authorization s))\<rparr>)
         \<and> owner c = Some t"
proof -
  from assms(2) obtain k where "map_of (woken (is_authenticating s)) t = Some k"
    by (metis domD dom_map_of_conv_image_fst)
  with assms(1) show ?thesis
    by (intro exI[of _ "(is_authenticating s)\<lparr>owner := Some t, depth := k,
                   woken := filter (\<lambda>w. fst w \<noteq> t) (woken (is_authenticating s))\<rparr>"])
       (simp add: authenticate_end_def and_then_def seq_def wait_wakeup_def
          cond_wait_wakeup_def store_auth_def)
qed

text \<open>
  A call that gets the lock runs to its end: the caller sleeps, the poller's hook takes
  the lock the sleeper gave up, notifies and releases, the caller wakes, writes the
  file and returns.
\<close>

lemma authenticate_runs:
  assumes avail: "lock_available t s" and code: "device_code h = JObj d"
  shows "\<exists>c. authenticate J t h s = Returns True
           (s\<lparr>trace := trace s @ handshake_trace h,
              authorization := authorization_after (terminal h) (authorization s),
              auth_token_file :=
                Some (json_dump J (authorization_after (terminal h) (authorization s))),
              is_authenticating := c\<rparr>)
         \<and> owner c = Some t"
proof -
  let ?s1 = "\<lambda>c. s\<lparr>trace := trace s @ [Oauth_device_code,
                  Print (Enter_code (dict_get d ''user_code'') (dict_get d ''verification_url'')),
                  Poller_start (JObj d)],
              is_authenticating := c\<rparr>"
  from authenticate_begin_available[OF avail, of d] obtain c1 where
    b: "authenticate_begin t (JObj d) s = Returns None (?s1 c1)"
    and c1: "owner c1 = None" "t \<in> fst ` set (waiting c1)" by blast
  have o1: "owner (is_authenticating (?s1 c1)) = None" using c1 by simp
  note p = poller_run_free[OF o1, of "poller_thread h" "ticks h" "terminal h"]
  let ?s2 = "(?s1 c1)\<lparr>trace := trace (?s1 c1) @ replicate (ticks h) (Poll_callback True)
                        @ [Print (event_message (terminal h))],
        authorization := authorization_after (terminal h) (authorization (?s1 c1)),
        is_authenticating := (is_authenticating (?s1 c1))\<lparr>owner := None, depth := 0,
           waiting := [],
           woken := woken (is_authenticating (?s1 c1)) @ waiting (is_authenticating (?s1 c1))\<rparr>\<rparr>"
  have o2: "owner (is_authenticating ?s2) = None" by simp
  have w2: "t \<in> fst ` set (woken (is_authenticating ?s2))" using c1 by auto
  from authenticate_end_woken[OF o2 w2, of J] obtain c3 where
    e: "authenticate_end J t ?s2 = Returns True
           (?s2\<lparr>is_authenticating := c3,
                 auth_token_file := Some (json_dump J (authorization ?s2))\<rparr>)"
    and c3: "owner c3 = Some t" by blast
  have "authenticate J t h s = Returns True
           (?s2\<lparr>is_authenticating := c3,
                 auth_token_file := Some (json_dump J (authorization ?s2))\<rparr>)"
    unfolding authenticate_def code
    using b p e by (simp add: and_then_def seq_def)
  then show ?thesis using c3
    by (intro exI[of _ c3]) (simp add: handshake_trace_def code)
qed

lemma authenticate_result:
  assumes "lock_available t s" and "device_code h = JObj d"
  shows "returned (authenticate J t h s) = Some True"
    and "authorization (final_state (authenticate J t h s)) =
           authorization_after (terminal h) (authorization s)"
    and "auth_token_file (final_state (authenticate J t h s)) =
           Some (json_dump J (authorization_after (terminal h) (authorization s)))"
    and "trace (final_state (authenticate J t h s)) = trace s @ handshake_trace h"
    and "owner (is_authenticating (final_state (authenticate J t h s))) = Some t"
  using authenticate_runs[OF assms, of J] by auto

lemma example_available: "lock_available 1 example_state"
  by (simp add: lock_available_def example_state_def Condition_def)

lemma example_device_code:
  "device_code (example_handshake ev) =
     JObj [(''user_code'', JStr ''AB12''), (''verification_url'', JStr ''u'')]"
  by (simp add: example_handshake_def example_code_def)

text \<open>
  C8. Every call of \<open>authenticate\<close> that gets the lock returns, and has by then written
  the token file, whatever the terminal event was: the file holds the JSON text of the
  authorization in memory, which is the payload after \<open>authenticated\<close> and the former
  authorization after \<open>aborted\<close> or \<open>expired\<close>, so the text of \<open>None\<close> if there was none.
\<close>

theorem authenticate_always_stores:
  assumes "lock_available t s" and "device_code h = JObj d"
  shows "returned (authenticate J t h s) = Some True
       \<and> authorization (final_state (authenticate J t h s)) =
           authorization_after (terminal h) (authorization s)
       \<and> auth_token_file (final_state (authenticate J t h s)) =
           Some (json_dump J (authorization (final_state (authenticate J t h s))))"
  using authenticate_result(1,2,3)[OF assms, of J] by simp

theorem authenticate_always_stores_witness:
  "lock_available 1 example_state
   \<and> device_code (example_handshake Aborted) = example_code
   \<and> authorization example_state = JNull
   \<and> returned (authenticate python_json 1 (example_handshake Aborted) example_state) = Some True
   \<and> auth_token_file
       (final_state (authenticate python_json 1 (example_handshake Aborted) example_state)) =
       Some ''null''"
proof -
  note run = authenticate_always_stores[OF example_available example_device_code[of Aborted],
          where J = python_json]
  have code: "device_code (example_handshake Aborted) = example_code"
    by (simp add: example_handshake_def)
  have none: "authorization example_state = JNull"
    by (simp add: example_state_def)
  have ev: "terminal (example_handshake Aborted) = Aborted"
    by (simp add: example_handshake_def)
  have written: "json_dump python_json JNull = ''null''"
    by (simp add: python_json_def)
  from run example_available code none ev written show ?thesis
    by simp
qed

text \<open>
  C1, as the code has it. When the poller reports \<open>aborted\<close> or \<open>expired\<close>,
  \<open>authenticate\<close> returns \<open>True\<close>, the value it returns after \<open>authenticated\<close> too; the
  authorization in memory stays what it was, and the token file is overwritten with its
  JSON text.
\<close>

theorem authenticate_after_abort_or_expiry:
  assumes "lock_available t s" and "device_code h = JObj d"
    and "terminal h = Aborted \<or> terminal h = Expired"
  shows "returned (authenticate J t h s) = Some True
       \<and> authorization (final_state (authenticate J t h s)) = authorization s
       \<and> auth_token_file (final_state (authenticate J t h s)) =
           Some (json_dump J (authorization s))"
  using authenticate_result(1,2,3)[OF assms(1,2), of J] assms(3) by auto

theorem authenticate_after_abort_or_expiry_witness:
  "lock_available 1 example_state
   \<and> device_code (example_handshake Expired) = example_code
   \<and> terminal (example_handshake Expired) = Expired
   \<and> returned (authenticate python_json 1 (example_handshake Expired) example_state) = Some True
   \<and> authorization
       (final_state (authenticate python_json 1 (example_handshake Expired) example_state)) =
       JNull
   \<and> auth_token_file
       (final_state (authenticate python_json 1 (example_handshake Expired) example_state)) =
       Some ''null''"
proof -
  have ev: "terminal (example_handshake Expired) = Expired"
    by (simp add: example_handshake_def)
  note run = authenticate_after_abort_or_expiry[OF example_available
          example_device_code[of Expired] disjI2[OF ev], where J = python_json]
  have code: "device_code (example_handshake Expired) = example_code"
    by (simp add: example_handshake_def)
  have none: "authorization example_state = JNull"
    by (simp add: example_state_def)
  have written: "json_dump python_json JNull = ''null''"
    by (simp add: python_json_def)
  from run example_available code none ev written show ?thesis
    by simp
qed

text \<open>
  C1, as the specification has it, fails. With no token file and no authorization, a
  handshake that ends \<open>aborted\<close> (or \<open>expired\<close>) returns what a handshake that ends
  \<open>authenticated\<close> returns, and leaves a token file where there was none.
\<close>

theorem abort_returns_true_and_writes_file:
  "returned (authenticate python_json 1 (example_handshake Aborted) example_state) = Some True
   \<and> returned (authenticate python_json 1 (example_handshake Expired) example_state) = Some True
   \<and> returned (authenticate python_json 1 (example_handshake (Authenticated example_payload))
                 example_state) = Some True
   \<and> auth_token_file example_state = None
   \<and> auth_token_file
       (final_state (authenticate python_json 1 (example_handshake Aborted) example_state)) =
       Some ''null''
   \<and> auth_token_file
       (final_state (authenticate python_json 1 (example_handshake Expired) example_state)) =
       Some ''null''"
proof -
  have absent: "auth_token_file example_state = None"
    by (simp add: example_state_def)
  have none: "authorization example_state = JNull"
    by (simp add: example_state_def)
  have ev: "terminal (example_handshake ev) = ev" for ev
    by (simp add: example_handshake_def)
  have written: "json_dump python_json JNull = ''null''"
    by (simp add: python_json_def)
  note run = authenticate_result(1,3)[OF example_available example_device_code,
      where J = python_json]
  from run[of Aborted] run[of Expired] run[of "Authenticated example_payload"]
    absent none ev written
  show ?thesis by simp
qed




lemma poll_replies_append: "poll_replies (xs @ ys) = poll_replies xs @ poll_replies ys"
  by (induction xs rule: poll_replies.induct) simp_all

lemma poll_replies_deliver:
  "poll_replies (trace (final_state (deliver t ev s))) = poll_replies (trace s)"
  by (cases ev)
     (simp_all add: on_aborted_def on_authenticated_def on_expired_def seq_def and_then_def
       emit_def acquire_def notify_all_def release_def poll_replies_append
       split: option.splits)

text \<open>
  C7. \<open>on_poll\<close> calls the callback it is given with \<open>True\<close>, whatever the callback; so
  over the \<open>n\<close> poll ticks of a handshake the poller's callback is called \<open>n\<close> times
  with \<open>True\<close> and never with \<open>False\<close>, in every state and before every terminal event.
\<close>

theorem on_poll_always_continues:
  "on_poll callback = callback True
   \<and> poll_replies (trace (final_state (poller_run t n ev s))) =
       poll_replies (trace s) @ replicate n True"
proof
  show "on_poll callback = callback True"
    by (simp add: on_poll_def)
  show "poll_replies (trace (final_state (poller_run t n ev s))) =
          poll_replies (trace s) @ replicate n True"
  proof (induction n arbitrary: s)
    case 0
    then show ?case by (simp add: poll_replies_deliver)
  next
    case (Suc n)
    from Suc[of "s\<lparr>trace := trace s @ [Poll_callback True]\<rparr>"] show ?case
      by (simp add: on_poll_def seq_def and_then_def emit_def poll_replies_append
          replicate_app_Cons_same)
  qed
qed

text \<open>
  A call made while another thread holds the lock is over at once: it returns \<open>False\<close>,
  prints its line, asks for no device code and starts no poller.
\<close>

lemma authenticate_rejected:
  assumes "owner (is_authenticating s) = Some t'" and "t' \<noteq> t"
  shows "authenticate J t h s =
           Returns False (s\<lparr>trace := trace s @ [Print Already_started]\<rparr>)"
  using assms
  by (simp add: authenticate_def authenticate_begin_def and_then_def seq_def emit_def
      acquire_nonblocking_def cond_acquire_def)

text \<open>
  C3 fails on the code. While the first caller sleeps in \<open>wait()\<close> its handshake is in
  flight, but \<open>wait()\<close> has given the lock up: the non-blocking \<open>acquire\<close> of a second
  thread succeeds, and the second call asks for its own device code and starts its own
  poller. Thread 1 calls \<open>authenticate\<close> on a fresh object, then thread 2 does.
\<close>

theorem second_call_during_wait_proceeds:
  "returned (authenticate_begin 1 example_code example_state) = Some None
   \<and> waiting (is_authenticating
         (final_state (authenticate_begin 1 example_code example_state))) = [(1, 1)]
   \<and> owner (is_authenticating
         (final_state (authenticate_begin 1 example_code example_state))) = None
   \<and> returned (authenticate_begin 2 example_code
         (final_state (authenticate_begin 1 example_code example_state))) = Some None
   \<and> trace (final_state (authenticate_begin 2 example_code
         (final_state (authenticate_begin 1 example_code example_state)))) =
       [Oauth_device_code, Print (Enter_code (JStr ''AB12'') (JStr ''u'')),
        Poller_start example_code,
        Oauth_device_code, Print (Enter_code (JStr ''AB12'') (JStr ''u'')),
        Poller_start example_code]"
  by (simp add: authenticate_begin_def example_code_def example_state_def Condition_def
      and_then_def seq_def emit_def acquire_nonblocking_def cond_acquire_def wait_release_def
      cond_wait_release_def dict_get_def)

lemma on_token_refreshed_effect:
  "on_token_refreshed a s =
     Returns () (s\<lparr>authorization := a, trace := trace s @ [Print (Token_refreshed a)]\<rparr>)"
  by (simp add: on_token_refreshed_def seq_def and_then_def emit_def)

lemma oauth_request_keeps_token_file:
  "auth_token_file (final_state (oauth_request T a r s)) = auth_token_file s"
  by (simp add: oauth_request_def request_def on_token_refreshed_effect seq_def and_then_def
      emit_def split: option.splits)

text \<open>
  C4 fails on the code. \<open>on_token_refreshed\<close> puts the new payload into
  \<open>self.authorization\<close> and prints it; it does not call \<open>store_auth\<close>, so the token file
  keeps the text of the old authorization.
\<close>

theorem refresh_leaves_token_file:
  "authorization (final_state (on_token_refreshed example_payload stored_state)) =
     example_payload
   \<and> auth_token_file stored_state = Some (dumps example_old)
   \<and> auth_token_file (final_state (on_token_refreshed example_payload stored_state)) =
       Some (dumps example_old)
   \<and> dumps example_old \<noteq> dumps example_payload"
  by (simp add: on_token_refreshed_effect stored_state_def example_old_def
      example_payload_def quoted_def)

section \<open>Properties of the constructor\<close>

lemma example_lines:
  "readlines ''client_id=abc\<newline>client_secret = xyz\<newline>'' =
     [''client_id=abc\<newline>'', ''client_secret = xyz\<newline>'']"
  by simp

lemma example_keys:
  "has_equals ''client_id=abc\<newline>''" "has_equals ''client_secret = xyz\<newline>''"
  "key_text ''client_id=abc\<newline>'' = ''client_id''"
  "key_text ''client_secret = xyz\<newline>'' = ''client_secret''"
  "value_text ''client_id=abc\<newline>'' = ''abc''"
  "value_text ''client_secret = xyz\<newline>'' = ''xyz''"
  by (simp_all add: has_equals_def key_text_def value_text_def strip_def is_space_def)

lemma example_credentials:
  "read_credentials (credentials_file example_state) =
     Inr (parse_credentials ''client_id=abc\<newline>client_secret = xyz\<newline>'')"
  "parse_credentials ''client_id=abc\<newline>client_secret = xyz\<newline>'' ''client_id'' =
     Some ''abc''"
  "parse_credentials ''client_id=abc\<newline>client_secret = xyz\<newline>'' ''client_secret'' =
     Some ''xyz''"
    apply (simp add: read_credentials_def example_state_def)
   apply (simp_all add: parse_credentials_def example_lines add_credential_eq example_keys)
  done

lemma init_with_credentials:
  assumes "read_credentials (credentials_file s) = Inr c"
    and "c ''client_id'' = Some cid" and "c ''client_secret'' = Some sec"
  shows "init J t h user s =
     and_then (read_auth J) (\<lambda>a.
       seq (\<lambda>s. Returns () (s\<lparr>authorization := a\<rparr>))
           (\<lambda>s. if authorization s = JNull
                then and_then (authenticate J t h) (\<lambda>_ s. Returns () s) s
                else Returns () s))
       (s\<lparr>username := user, client_id := cid, client_secret := sec,
          is_authenticating := Condition\<rparr>)"
  using assms by (simp add: init_def)

lemma old_roundtrip:
  "json_load python_json (dumps example_old) = Some example_old"
  unfolding python_json_def example_old_def by code_simp

text \<open>
  C5, as the code has it. With usable credentials, a constructor that finds no token
  file, or a token file holding \<open>null\<close>, runs a handshake by itself; one that finds a
  token file holding any other document \<open>a\<close> starts none, and \<open>a\<close> is the authorization
  in memory; and one that finds a token file the parser rejects raises the parser's
  error, before any handshake and with nothing printed or requested.
\<close>

theorem init_handshake_iff_no_authorization:
  assumes "read_credentials (credentials_file s) = Inr c"
    and "c ''client_id'' = Some cid" and "c ''client_secret'' = Some sec"
    and "device_code h = JObj d"
  shows "(case stored_document J s of
            None \<Rightarrow>
              raised (init J t h user s) = Some JSONDecodeError
              \<and> trace (final_state (init J t h user s)) = trace s
              \<and> auth_token_file (final_state (init J t h user s)) = auth_token_file s
          | Some a \<Rightarrow>
              returned (init J t h user s) = Some ()
              \<and> trace (final_state (init J t h user s)) =
                  (if a = JNull then trace s @ handshake_trace h else trace s)
              \<and> authorization (final_state (init J t h user s)) =
                  (if a = JNull then authorization_after (terminal h) JNull else a))"
proof (cases "stored_document J s")
  case None
  let ?s3 = "s\<lparr>username := user, client_id := cid, client_secret := sec,
          is_authenticating := Condition\<rparr>"
  from None have "read_auth J ?s3 = Raises JSONDecodeError ?s3"
    by (auto simp: read_auth_def stored_document_def split: option.splits)
  then have "init J t h user s = Raises JSONDecodeError ?s3"
    unfolding init_with_credentials[OF assms(1,2,3)]
    by (simp add: and_then_def)
  with None show ?thesis by simp
next
  case (Some a)
  let ?s3 = "s\<lparr>username := user, client_id := cid, client_secret := sec,
          is_authenticating := Condition\<rparr>"
  let ?s4 = "?s3\<lparr>authorization := a\<rparr>"
  have r: "read_auth J ?s3 = Returns a ?s3"
    using Some by (auto simp: read_auth_def stored_document_def split: option.splits)
  have i: "init J t h user s =
      (if a = JNull then and_then (authenticate J t h) (\<lambda>_ s. Returns () s) ?s4
       else Returns () ?s4)"
    unfolding init_with_credentials[OF assms(1,2,3)]
    using r by (simp add: and_then_def seq_def)
  show ?thesis
  proof (cases "a = JNull")
    case False
    with i Some show ?thesis by simp
  next
    case True
    have avail: "lock_available t ?s4"
      by (simp add: lock_available_def Condition_def)
    from authenticate_runs[OF avail assms(4), of J] obtain c' where
      "authenticate J t h ?s4 = Returns True
           (?s4\<lparr>trace := trace ?s4 @ handshake_trace h,
              authorization := authorization_after (terminal h) (authorization ?s4),
              auth_token_file :=
                Some (json_dump J (authorization_after (terminal h) (authorization ?s4))),
              is_authenticating := c'\<rparr>)" by blast
    with i True Some show ?thesis by (simp add: and_then_def)
  qed
qed

theorem init_handshake_iff_no_authorization_witness:
  "stored_document python_json example_state = Some JNull
   \<and> returned (init python_json 1 (example_handshake Aborted) ''ddboline'' example_state) =
       Some ()
   \<and> trace (final_state
        (init python_json 1 (example_handshake Aborted) ''ddboline'' example_state)) =
       handshake_trace (example_handshake Aborted)
   \<and> stored_document python_json stored_state = Some example_old
   \<and> returned (init python_json 1 (example_handshake Aborted) ''ddboline'' stored_state) =
       Some ()
   \<and> trace (final_state
        (init python_json 1 (example_handshake Aborted) ''ddboline'' stored_state)) = []
   \<and> authorization (final_state
        (init python_json 1 (example_handshake Aborted) ''ddboline'' stored_state)) =
       example_old
   \<and> stored_document python_json empty_file_state = None
   \<and> raised (init python_json 1 (example_handshake Aborted) ''ddboline'' empty_file_state) =
       Some JSONDecodeError
   \<and> trace (final_state
        (init python_json 1 (example_handshake Aborted) ''ddboline'' empty_file_state)) = []"
proof -
  have absent: "stored_document python_json example_state = Some JNull"
    by (simp add: stored_document_def example_state_def)
  have present: "stored_document python_json stored_state = Some example_old"
    using old_roundtrip by (simp add: stored_document_def stored_state_def)
  have unread: "stored_document python_json empty_file_state = None"
    by (simp add: stored_document_def empty_file_state_def python_json_def loads_def)
  have same: "credentials_file stored_state = credentials_file example_state"
    "credentials_file empty_file_state = credentials_file example_state"
    by (simp_all add: stored_state_def empty_file_state_def)
  have empty: "trace example_state = []" "trace stored_state = []"
    "trace empty_file_state = []"
    by (simp_all add: stored_state_def empty_file_state_def example_state_def)
  have differ: "example_old \<noteq> JNull"
    by (simp add: example_old_def)
  note missing = init_handshake_iff_no_authorization[OF example_credentials
      example_device_code[of Aborted], of python_json 1 "''ddboline''"]
  note stored = init_handshake_iff_no_authorization[OF example_credentials[folded same(1)]
      example_device_code[of Aborted], of python_json 1 "''ddboline''"]
  note broken = init_handshake_iff_no_authorization[OF example_credentials[folded same(2)]
      example_device_code[of Aborted], of python_json 1 "''ddboline''"]
  from missing stored broken absent present unread empty differ show ?thesis
    by simp
qed

text \<open>
  C5, as the specification has it, fails for a token file that is empty. The file
  exists, so \<open>read_auth\<close> parses it, and the parser raises on the empty text: the
  constructor raises with it, and no handshake has been started.
\<close>

theorem init_raises_on_empty_token_file:
  "auth_token_file empty_file_state = Some []
   \<and> raised (init python_json 1 (example_handshake Aborted) ''ddboline'' empty_file_state) =
       Some JSONDecodeError
   \<and> trace (final_state
        (init python_json 1 (example_handshake Aborted) ''ddboline'' empty_file_state)) = []"
proof -
  have same: "credentials_file empty_file_state = credentials_file example_state"
    by (simp add: empty_file_state_def)
  have unread: "json_load python_json [] = None"
    by (simp add: python_json_def loads_def)
  show ?thesis
    unfolding init_with_credentials[OF example_credentials[folded same]]
    using unread
    by (simp add: and_then_def read_auth_def empty_file_state_def example_state_def)
qed

section \<open>Properties of \<open>sync_db\<close>\<close>

lemma transfer_dry:
  "transfer True fetch src dst table start log = (None, log @ [Get_list src table start])"
  by (simp add: transfer_def)

lemma transfer_write:
  "entry_map table = Some key \<Longrightarrow>
   transfer False fetch src dst table start log =
     (None, log @ [Get_list src table start, Post_list dst table key (fetch src table start)])"
  by (simp add: transfer_def)

lemma sync_table_newest_wins:
  assumes "table \<in> dom m0" and "table \<in> dom m1"
    and "post \<Longrightarrow> table \<in> dom entry_map"
  shows "sync_table (\<not> post) fetch m0 m1 table log =
           (None, log @ newest_wins post fetch m0 m1 table)"
proof -
  from assms(1,2) obtain a b where ab: "m0 table = Some a" "m1 table = Some b" by auto
  show ?thesis
  proof (cases post)
    case False
    with ab show ?thesis
      by (auto simp: sync_table_def newest_wins_def transfer_dry)
  next
    case True
    with assms(3) obtain key where "entry_map table = Some key" by auto
    with ab True show ?thesis
      by (auto simp: sync_table_def newest_wins_def transfer_write)
  qed
qed

lemma sync_tables_newest_wins:
  assumes "set tables \<subseteq> dom m0 \<inter> dom m1"
    and "post \<Longrightarrow> set tables \<subseteq> dom entry_map"
  shows "sync_tables (\<not> post) fetch m0 m1 tables log =
           (None, log @ concat (map (newest_wins post fetch m0 m1) tables))"
  using assms
proof (induction tables arbitrary: log)
  case Nil
  then show ?case by simp
next
  case (Cons t ts)
  have "sync_table (\<not> post) fetch m0 m1 t log = (None, log @ newest_wins post fetch m0 m1 t)"
    using Cons.prems by (intro sync_table_newest_wins) auto
  moreover have "sync_tables (\<not> post) fetch m0 m1 ts (log @ newest_wins post fetch m0 m1 t) =
      (None, (log @ newest_wins post fetch m0 m1 t) @ concat (map (newest_wins post fetch m0 m1) ts))"
    using Cons.prems by (intro Cons.IH) auto
  ultimately show ?case by simp
qed

lemma table_of_newest_wins:
  "filter (\<lambda>r. table_of r = Some t) (newest_wins post fetch m0 m1 t') =
     (if t' = t then newest_wins post fetch m0 m1 t else [])"
  by (auto simp: newest_wins_def split: option.splits)

lemma filter_concat_newest_wins:
  assumes "distinct tables"
  shows "filter (\<lambda>r. table_of r = Some t) (concat (map (newest_wins post fetch m0 m1) tables)) =
     (if t \<in> set tables then newest_wins post fetch m0 m1 t else [])"
  using assms
  by (induction tables) (auto simp: table_of_newest_wins)

lemma newest_wins_outside:
  "t \<notin> dom m0 \<inter> dom m1 \<Longrightarrow> newest_wins post fetch m0 m1 t = []"
  by (auto simp: newest_wins_def split: option.splits)

lemma no_post_newest_wins:
  "filter is_post_list (concat (map (newest_wins False fetch m0 m1) tables)) = []"
  by (induction tables) (auto simp: newest_wins_def split: option.splits)

lemma example_common:
  "set [''imdb_ratings'', ''movie_queue''] = common_tables example_listing0 example_listing1"
  by (auto simp: common_tables_def dict_of_def example_listing0_def example_listing1_def
      dom_map_of_conv_image_fst)

text \<open>
  C6, as the code has it. The script fixes \<open>dry_run = True\<close>, so for the tables both
  services list it only fetches: where one side's timestamp is strictly greater, one
  \<open>GET\<close> goes to that side for the records since the other side's timestamp; where
  the timestamps are equal nothing is requested; a table only one side lists is never
  requested; and nothing at all is posted. (With \<open>dry_run\<close> off, the fetched records
  would go to the older side: \<open>sync_tables_newest_wins\<close>.)
\<close>

theorem sync_db_fetches_newest_only:
  assumes "set tables = common_tables listing0 listing1" and "distinct tables"
  shows "fst (sync_db fetch listing0 listing1 tables) = None
       \<and> filter is_post_list (snd (sync_db fetch listing0 listing1 tables)) = []
       \<and> filter (\<lambda>r. table_of r = Some table) (snd (sync_db fetch listing0 listing1 tables)) =
           newest_wins False fetch (dict_of listing0) (dict_of listing1) table"
proof -
  have sub: "set tables \<subseteq> dom (dict_of listing0) \<inter> dom (dict_of listing1)"
    using assms(1) by (simp add: common_tables_def)
  have run: "sync_db fetch listing0 listing1 tables =
      (None, [Post_auth Endpoint0, Post_auth Endpoint1,
              Get_last_modified Endpoint0, Get_last_modified Endpoint1]
             @ concat (map (newest_wins False fetch (dict_of listing0) (dict_of listing1)) tables))"
    unfolding sync_db_def dry_run_def
    using sync_tables_newest_wins[OF sub, of False fetch] by simp
  have out: "table \<notin> set tables \<Longrightarrow>
      newest_wins False fetch (dict_of listing0) (dict_of listing1) table = []"
    using assms(1) by (intro newest_wins_outside) (simp add: common_tables_def)
  show ?thesis
    unfolding run using out
    by (simp add: no_post_newest_wins filter_concat_newest_wins[OF assms(2)])
qed

theorem sync_db_fetches_newest_only_witness:
  "set [''imdb_ratings'', ''movie_queue''] = common_tables example_listing0 example_listing1
   \<and> distinct [''imdb_ratings'', ''movie_queue'']
   \<and> fst (sync_db example_fetch example_listing0 example_listing1
            [''imdb_ratings'', ''movie_queue'']) = None
   \<and> filter (\<lambda>r. table_of r = Some ''movie_queue'')
        (snd (sync_db example_fetch example_listing0 example_listing1
            [''imdb_ratings'', ''movie_queue''])) = [Get_list Endpoint0 ''movie_queue'' 1]
   \<and> filter (\<lambda>r. table_of r = Some ''imdb_ratings'')
        (snd (sync_db example_fetch example_listing0 example_listing1
            [''imdb_ratings'', ''movie_queue''])) = []
   \<and> filter (\<lambda>r. table_of r = Some ''imdb_episodes'')
        (snd (sync_db example_fetch example_listing0 example_listing1
            [''imdb_ratings'', ''movie_queue''])) = []"
proof -
  have d: "distinct [''imdb_ratings'', ''movie_queue'']" by simp
  note run = sync_db_fetches_newest_only[OF example_common d, of example_fetch]
  have newer: "newest_wins False example_fetch (dict_of example_listing0)
      (dict_of example_listing1) ''movie_queue'' = [Get_list Endpoint0 ''movie_queue'' 1]"
    by (simp add: newest_wins_def dict_of_def example_listing0_def example_listing1_def)
  have equal: "newest_wins False example_fetch (dict_of example_listing0)
      (dict_of example_listing1) ''imdb_ratings'' = []"
    by (simp add: newest_wins_def dict_of_def example_listing0_def example_listing1_def)
  have single: "newest_wins False example_fetch (dict_of example_listing0)
      (dict_of example_listing1) ''imdb_episodes'' = []"
    by (simp add: newest_wins_def dict_of_def example_listing0_def example_listing1_def)
  from run[of "''movie_queue''"] run[of "''imdb_ratings''"] run[of "''imdb_episodes''"]
    newer equal single example_common d
  show ?thesis by simp
qed

text \<open>
  C6, as the specification has it, fails: \<open>movie_queue\<close> is newer on the first service,
  its records are fetched there, and the run ends without a \<open>POST\<close> to the second.
\<close>

theorem sync_db_writes_nothing:
  "sync_db example_fetch example_listing0 example_listing1 [''imdb_ratings'', ''movie_queue''] =
     (None, [Post_auth Endpoint0, Post_auth Endpoint1,
             Get_last_modified Endpoint0, Get_last_modified Endpoint1,
             Get_list Endpoint0 ''movie_queue'' 1])"
  by (simp add: sync_db_def dry_run_def sync_table_def transfer_def dict_of_def
      example_listing0_def example_listing1_def)

section \<open>Properties of the watchlist and history operations\<close>

lemma do_lookup_result:
  "\<exists>s'. do_lookup T i s = Returns (search_lookup T i) s'
        \<and> filter is_add (trace s') = filter is_add (trace s)"
  by (simp add: do_lookup_def oauth_request_def request_def on_token_refreshed_def seq_def
      and_then_def emit_def split: option.splits)

lemma do_query_result:
  "\<exists>s'. filter is_add (trace s') = filter is_add (trace s) \<and>
     do_query T q kind s =
       (case search_query T (map (\<lambda>c. if c = CHR ''_'' then CHR '' '' else c) q) kind of
          None \<Rightarrow> Raises TypeError s'
        | Some ms \<Rightarrow> Returns (PDict (foldl (\<lambda>d m. dict_set d (get_key_imdb m) (to_dict m)) [] ms)) s')"
  by (simp add: do_query_def oauth_request_def request_def on_token_refreshed_def seq_def
      and_then_def emit_def Let_def split: option.splits)

lemma no_match_lookup_show:
  assumes "truthy imdb_id"
    and "search_lookup T (the imdb_id) = PNone \<or> search_lookup T (the imdb_id) = PList []"
  shows "returned (add_show_to_watchlist T show imdb_id s) = Some empty_dict
       \<and> filter is_add (trace (final_state (add_show_to_watchlist T show imdb_id s))) =
           filter is_add (trace s)"
proof -
  from do_lookup_result[of T "the imdb_id" s] obtain s' where
    "do_lookup T (the imdb_id) s = Returns (search_lookup T (the imdb_id)) s'"
    "filter is_add (trace s') = filter is_add (trace s)" by blast
  with assms show ?thesis
    by (auto simp: add_show_to_watchlist_def lookup_or_query_def and_then_def)
qed

lemma no_match_lookup_episode:
  assumes "truthy imdb_id"
    and "search_lookup T (the imdb_id) = PNone \<or> search_lookup T (the imdb_id) = PList []"
  shows "returned (add_episode_to_watched T show imdb_id season episode s) = Some empty_dict
       \<and> filter is_add (trace (final_state
             (add_episode_to_watched T show imdb_id season episode s))) =
           filter is_add (trace s)"
proof -
  from do_lookup_result[of T "the imdb_id" s] obtain s' where
    "do_lookup T (the imdb_id) s = Returns (search_lookup T (the imdb_id)) s'"
    "filter is_add (trace s') = filter is_add (trace s)" by blast
  with assms show ?thesis
    by (auto simp: add_episode_to_watched_def lookup_or_query_def and_then_def)
qed

text \<open>
  On the title path the value bound to \<open>show_obj\<close> is the dict of \<open>do_query\<close>, which is
  neither \<open>None\<close> nor a list: without a match \<open>add_show_to_watchlist\<close> raises, and
  sends no add request.
\<close>

lemma no_match_query_show:
  assumes "\<not> truthy imdb_id" and "truthy show"
    and "search_query T (map (\<lambda>c. if c = CHR ''_'' then CHR '' '' else c) (the show)) ''show''
           = None
       \<or> search_query T (map (\<lambda>c. if c = CHR ''_'' then CHR '' '' else c) (the show)) ''show''
           = Some []"
  shows "returned (add_show_to_watchlist T show imdb_id s) = None
       \<and> (raised (add_show_to_watchlist T show imdb_id s) = Some TypeError
          \<or> raised (add_show_to_watchlist T show imdb_id s) = Some AttributeError)
       \<and> filter is_add (trace (final_state (add_show_to_watchlist T show imdb_id s))) =
           filter is_add (trace s)"
proof -
  from do_query_result[where s = s and T = T and q = "the show" and kind = "''show''"] obtain s' where
    "filter is_add (trace s') = filter is_add (trace s)"
    "do_query T (the show) ''show'' s =
       (case search_query T (map (\<lambda>c. if c = CHR ''_'' then CHR '' '' else c) (the show))
               ''show'' of
          None \<Rightarrow> Raises TypeError s'
        | Some ms \<Rightarrow>
            Returns (PDict (foldl (\<lambda>d m. dict_set d (get_key_imdb m) (to_dict m)) [] ms)) s')"
    by blast
  with assms show ?thesis
    by (auto simp: add_show_to_watchlist_def lookup_or_query_def and_then_def)
qed

text \<open>
  C9 fails on the code for the title path. The service knows no show of that title and
  the query yields the empty list: \<open>add_show_to_watchlist\<close> raises instead of returning
  an empty dict (as \<open>add_episode_to_watched\<close> does when a season and an episode are
  given; without them it returns \<open>None\<close>), where the sibling \<open>add_movie_to_watched\<close>
  returns the empty dict. No add request is sent in any of these calls. For a lookup by
  imdb id the claim holds: \<open>no_match_lookup_show\<close>, \<open>no_match_lookup_episode\<close>.
\<close>

theorem title_query_without_match_raises:
  "raised (add_show_to_watchlist example_api (Some ''no_such_show'') None stored_state) =
     Some AttributeError
   \<and> returned (add_show_to_watchlist example_api (Some ''no_such_show'') None stored_state) = None
   \<and> trace (final_state
        (add_show_to_watchlist example_api (Some ''no_such_show'') None stored_state)) =
       [Search_query ''no such show'' ''show'']
   \<and> raised (add_episode_to_watched example_api (Some ''no_such_show'') None (Some 1) (Some 2)
        stored_state) = Some AttributeError
   \<and> returned (add_episode_to_watched example_api (Some ''no_such_show'') None None None
        stored_state) = Some JNull
   \<and> returned (add_movie_to_watched example_api (Some ''no_such_show'') None stored_state) =
       Some empty_dict"
  by (simp add: add_show_to_watchlist_def add_episode_to_watched_def add_movie_to_watched_def
      lookup_or_query_def truthy_def truthy_int_def do_query_def oauth_request_def request_def
      seq_def and_then_def emit_def example_api_def stored_state_def example_state_def Let_def)


end
